theory Spec2Isabelle
  imports Main "HOL-Library.Sublist"
begin

section \<open>JavaScript values shared by the two components\<close>

text \<open>
  The file \<^verbatim>\<open>Toolbox.tsx\<close> holds two React components: the function component
  \<^verbatim>\<open>Toolbox\<close> and the class component \<^verbatim>\<open>SharedVideo\<close>. Both are embedded below as
  functions from what they read (props, selected store values, and the results of the
  helpers that live in other files) to what they produce (the rendered element, the
  dispatched actions, or a thrown error).

  A JavaScript string is modelled by the list of the bytes of its UTF-8 encoding. The
  operations the components apply to strings (\<^verbatim>\<open>match\<close> of an ASCII literal, \<^verbatim>\<open>endsWith\<close>
  of an ASCII literal, the emptiness test, concatenation) give the same answers on the
  bytes as on the UTF-16 code units of a well-formed string.

  The one exception the embedding records is the \<^verbatim>\<open>TypeError\<close> of the \<^verbatim>\<open>URL\<close>
  constructor, the only call in the file that throws on a well-typed argument.
\<close>

datatype js_error = TypeError

subsection \<open>String operations\<close>

text \<open>
  \<^verbatim>\<open>s.match(/lit/)\<close> for a regular expression that is a plain literal: the result is
  an array (truthy) when the literal occurs somewhere in \<^verbatim>\<open>s\<close> and \<^verbatim>\<open>null\<close> otherwise.
  \<open>match_literal lit s\<close> is the truthiness of that result; the scan tries every start
  position from left to right, as the regular-expression engine does.
\<close>

fun match_literal :: "string \<Rightarrow> string \<Rightarrow> bool" where
  "match_literal lit [] = (lit = [])"
| "match_literal lit (c # cs) = (prefix lit (c # cs) \<or> match_literal lit cs)"

text \<open>\<^verbatim>\<open>s.endsWith(searchString)\<close>: the last \<open>length searchString\<close> units of \<open>s\<close> are compared.\<close>

definition endsWith :: "string \<Rightarrow> string \<Rightarrow> bool" where
  "endsWith s searchString =
     (length searchString \<le> length s \<and>
      drop (length s - length searchString) s = searchString)"

subsection \<open>Characters\<close>

definition byte :: "char \<Rightarrow> nat" where
  "byte c = of_char c"

definition is_ASCII_digit :: "char \<Rightarrow> bool" where
  "is_ASCII_digit c = (48 \<le> byte c \<and> byte c \<le> 57)"

definition is_ASCII_upper_alpha :: "char \<Rightarrow> bool" where
  "is_ASCII_upper_alpha c = (65 \<le> byte c \<and> byte c \<le> 90)"

definition is_ASCII_lower_alpha :: "char \<Rightarrow> bool" where
  "is_ASCII_lower_alpha c = (97 \<le> byte c \<and> byte c \<le> 122)"

definition is_ASCII_alpha :: "char \<Rightarrow> bool" where
  "is_ASCII_alpha c = (is_ASCII_upper_alpha c \<or> is_ASCII_lower_alpha c)"

definition is_ASCII_alphanumeric :: "char \<Rightarrow> bool" where
  "is_ASCII_alphanumeric c = (is_ASCII_digit c \<or> is_ASCII_alpha c)"

definition is_ASCII_hex_digit :: "char \<Rightarrow> bool" where
  "is_ASCII_hex_digit c =
     (is_ASCII_digit c \<or> (65 \<le> byte c \<and> byte c \<le> 70) \<or> (97 \<le> byte c \<and> byte c \<le> 102))"

definition ASCII_lowercase :: "char \<Rightarrow> char" where
  "ASCII_lowercase c = (if is_ASCII_upper_alpha c then char_of (byte c + 32) else c)"

definition hex_value :: "char \<Rightarrow> nat" where
  "hex_value c =
     (if is_ASCII_digit c then byte c - 48
      else if is_ASCII_upper_alpha c then byte c - 55
      else byte c - 87)"

text \<open>The number a string of digits denotes in radix \<open>r\<close> (the empty string denotes 0).\<close>

definition radix_value :: "nat \<Rightarrow> string \<Rightarrow> nat" where
  "radix_value r ds = foldl (\<lambda>acc d. acc * r + hex_value d) 0 ds"

section \<open>The platform's \<^verbatim>\<open>URL\<close> constructor\<close>

text \<open>
  \<^verbatim>\<open>SharedVideo.getManager\<close> calls \<^verbatim>\<open>new URL(videoUrl)\<close> and reads \<^verbatim>\<open>pathname\<close> of the
  result. The constructor belongs to the browser, not to this repository; it runs the basic
  URL parser of the WHATWG URL Standard without a base URL and throws a \<^verbatim>\<open>TypeError\<close> when
  the parser returns failure. The embedding of \<^verbatim>\<open>getManager\<close> below takes the constructor
  as a parameter, so its theorems hold for every constructor. For evaluation at concrete
  inputs this section gives a model of the parser, written from the Standard (the living
  standard's text as of 2025), that computes the one field the component reads.

  A URL object is modelled by its \<open>pathname\<close>. The parser's validation errors are not
  failures and are not modelled. The query and the fragment never make the parser fail and
  never change the path, so parsing stops at the first \<^verbatim>\<open>?\<close> or \<^verbatim>\<open>#\<close> that ends the path.
\<close>

record URL =
  pathname :: string

subsection \<open>Percent-encoding\<close>

definition hex_digit_upper :: "nat \<Rightarrow> char" where
  "hex_digit_upper n = (if n < 10 then char_of (48 + n) else char_of (55 + n))"

definition percent_encode_byte :: "char \<Rightarrow> string" where
  "percent_encode_byte c = [CHR ''%'', hex_digit_upper (byte c div 16), hex_digit_upper (byte c mod 16)]"

text \<open>The C0 control percent-encode set: C0 controls and everything above \<^verbatim>\<open>~\<close>.\<close>

definition in_C0_control_percent_encode_set :: "char \<Rightarrow> bool" where
  "in_C0_control_percent_encode_set c = (byte c \<le> 31 \<or> 126 < byte c)"

text \<open>
  The path percent-encode set: the query set (the C0 control set, space, \<^verbatim>\<open>"\<close>, \<^verbatim>\<open>#\<close>,
  \<^verbatim>\<open><\<close>, \<^verbatim>\<open>>\<close>) and \<^verbatim>\<open>?\<close>, \<^verbatim>\<open>^\<close>, the backquote, \<^verbatim>\<open>{\<close>, \<^verbatim>\<open>}\<close>.
\<close>

definition in_path_percent_encode_set :: "char \<Rightarrow> bool" where
  "in_path_percent_encode_set c =
     (in_C0_control_percent_encode_set c \<or>
      byte c \<in> {32, 34, 35, 60, 62, 63, 94, 96, 123, 125})"

definition percent_encode_path_char :: "char \<Rightarrow> string" where
  "percent_encode_path_char c = (if in_path_percent_encode_set c then percent_encode_byte c else [c])"

fun percent_decode :: "string \<Rightarrow> string" where
  "percent_decode (c # h # l # cs) =
     (if c = CHR ''%'' \<and> is_ASCII_hex_digit h \<and> is_ASCII_hex_digit l
      then char_of (hex_value h * 16 + hex_value l) # percent_decode cs
      else c # percent_decode (h # l # cs))"
| "percent_decode cs = cs"

subsection \<open>Hosts\<close>

text \<open>Strictly splitting a string on a delimiter: the result is never empty.\<close>

fun split_on :: "char \<Rightarrow> string \<Rightarrow> string list" where
  "split_on d [] = [[]]"
| "split_on d (c # cs) =
     (if c = d then [] # split_on d cs
      else (case split_on d cs of p # ps \<Rightarrow> (c # p) # ps | [] \<Rightarrow> [[c]]))"

text \<open>
  The IPv4 number parser: a prefix \<^verbatim>\<open>0x\<close> selects radix 16, a leading \<^verbatim>\<open>0\<close> radix 8;
  \<open>None\<close> is failure.
\<close>

definition radix_digits :: "nat \<Rightarrow> string \<Rightarrow> bool" where
  "radix_digits r ds = list_all (\<lambda>d. is_ASCII_hex_digit d \<and> hex_value d < r) ds"

definition IPv4_number_parser :: "string \<Rightarrow> nat option" where
  "IPv4_number_parser input =
     (if input = [] then None
      else
        (let (r, ds) =
               (if 2 \<le> length input \<and> (take 2 input = ''0x'' \<or> take 2 input = ''0X'')
                then (16, drop 2 input)
                else if 2 \<le> length input \<and> hd input = CHR ''0'' then (8, tl input)
                else (10, input))
         in if radix_digits r ds then Some (radix_value r ds) else None))"

definition ends_in_a_number :: "string \<Rightarrow> bool" where
  "ends_in_a_number input =
     (let parts = split_on CHR ''.'' input
      in if last parts = [] \<and> length parts = 1 then False
         else
           (let l = last (if last parts = [] then butlast parts else parts)
            in (l \<noteq> [] \<and> list_all is_ASCII_digit l) \<or> IPv4_number_parser l \<noteq> None))"

text \<open>The IPv4 parser, reduced to its verdict: \<open>True\<close> when it returns an address.\<close>

definition IPv4_parser_ok :: "string \<Rightarrow> bool" where
  "IPv4_parser_ok input =
     (let parts0 = split_on CHR ''.'' input;
          parts = (if last parts0 = [] \<and> 1 < length parts0 then butlast parts0 else parts0);
          numbers = map IPv4_number_parser parts
      in length parts \<le> 4 \<and>
         list_all (\<lambda>n. n \<noteq> None) numbers \<and>
         list_all (\<lambda>n. the n \<le> 255) (butlast numbers) \<and>
         the (last numbers) < 256 ^ (5 - length numbers))"

definition is_forbidden_host_code_point :: "char \<Rightarrow> bool" where
  "is_forbidden_host_code_point c =
     (byte c \<in> {0, 9, 10, 13, 32, 35, 47, 58, 60, 62, 63, 64, 91, 92, 93, 94, 124})"

definition is_forbidden_domain_code_point :: "char \<Rightarrow> bool" where
  "is_forbidden_domain_code_point c =
     (is_forbidden_host_code_point c \<or> byte c \<le> 31 \<or> byte c = 37 \<or> byte c = 127)"

text \<open>
  Domain-to-ASCII is ASCII lowercasing when the domain is an ASCII string none of whose
  labels starts with \<^verbatim>\<open>xn--\<close> (the Standard says so in a note). Every other domain needs
  the Unicode IDNA tables.
\<close>

definition needs_Unicode_ToASCII :: "string \<Rightarrow> bool" where
  "needs_Unicode_ToASCII domain =
     (list_ex (\<lambda>c. 128 \<le> byte c) domain \<or>
      list_ex (\<lambda>label. prefix ''xn--'' (map ASCII_lowercase label)) (split_on CHR ''.'' domain))"

text \<open>
  The host parser, reduced to its verdict. Its argument \<open>isOpaque\<close> is true for the hosts
  of non-special schemes. Two kinds of host are not decided by this model but by its first
  parameter \<open>platform_host_ok\<close>, the browser's own verdict on the host string: an IPv6
  literal in brackets, and a domain that needs the Unicode IDNA tables.
\<close>

definition host_parser_ok :: "(string \<Rightarrow> bool) \<Rightarrow> bool \<Rightarrow> string \<Rightarrow> bool" where
  "host_parser_ok platform_host_ok isOpaque input =
     (if input \<noteq> [] \<and> hd input = CHR ''[''  then platform_host_ok input
      else if isOpaque then \<not> list_ex is_forbidden_host_code_point input
      else
        (let domain = percent_decode input
         in if needs_Unicode_ToASCII domain then platform_host_ok input
            else
              (let asciiDomain = map ASCII_lowercase domain
               in asciiDomain \<noteq> [] \<and>
                  \<not> list_ex is_forbidden_domain_code_point asciiDomain \<and>
                  (if ends_in_a_number asciiDomain then IPv4_parser_ok asciiDomain else True))))"

subsection \<open>Paths\<close>

definition is_single_dot_segment :: "string \<Rightarrow> bool" where
  "is_single_dot_segment buffer = (map ASCII_lowercase buffer \<in> {''.'', ''%2e''})"

definition is_double_dot_segment :: "string \<Rightarrow> bool" where
  "is_double_dot_segment buffer =
     (map ASCII_lowercase buffer \<in> {''..'', ''.%2e'', ''%2e.'', ''%2e%2e''})"

definition is_Windows_drive_letter :: "string \<Rightarrow> bool" where
  "is_Windows_drive_letter s =
     (length s = 2 \<and> is_ASCII_alpha (hd s) \<and> (s ! 1 = CHR '':'' \<or> s ! 1 = CHR ''|''))"

definition is_normalized_Windows_drive_letter :: "string \<Rightarrow> bool" where
  "is_normalized_Windows_drive_letter s = (is_Windows_drive_letter s \<and> s ! 1 = CHR '':'')"

definition shorten_path :: "bool \<Rightarrow> string list \<Rightarrow> string list" where
  "shorten_path is_file path =
     (if is_file \<and> length path = 1 \<and> is_normalized_Windows_drive_letter (hd path) then path
      else butlast path)"

text \<open>
  What the path state does with its buffer when it meets the end of a segment;
  \<open>at_slash\<close> says that the segment was ended by a slash (for a special scheme also a
  backslash) and not by the end of the input, \<^verbatim>\<open>?\<close> or \<^verbatim>\<open>#\<close>.
\<close>

definition end_of_segment :: "bool \<Rightarrow> string list \<Rightarrow> string \<Rightarrow> bool \<Rightarrow> string list" where
  "end_of_segment is_file path buffer at_slash =
     (if is_double_dot_segment buffer then
        (if at_slash then shorten_path is_file path else shorten_path is_file path @ [[]])
      else if is_single_dot_segment buffer then
        (if at_slash then path else path @ [[]])
      else
        path @ [if is_file \<and> path = [] \<and> is_Windows_drive_letter buffer
                then [hd buffer, CHR '':''] else buffer])"

definition is_slash :: "bool \<Rightarrow> char \<Rightarrow> bool" where
  "is_slash special c = (c = CHR ''/'' \<or> (special \<and> c = CHR 0x5C))"

fun path_state :: "bool \<Rightarrow> bool \<Rightarrow> string list \<Rightarrow> string \<Rightarrow> string \<Rightarrow> string list" where
  "path_state special is_file path buffer [] = end_of_segment is_file path buffer False"
| "path_state special is_file path buffer (c # cs) =
     (if is_slash special c then
        path_state special is_file (end_of_segment is_file path buffer True) [] cs
      else if c = CHR ''?'' \<or> c = CHR ''#'' then end_of_segment is_file path buffer False
      else path_state special is_file path (buffer @ percent_encode_path_char c) cs)"

definition path_start_state :: "bool \<Rightarrow> bool \<Rightarrow> string \<Rightarrow> string list" where
  "path_start_state special is_file input =
     (case input of
        [] \<Rightarrow> if special then path_state special is_file [] [] [] else []
      | c # cs \<Rightarrow>
          if special then
            (if is_slash True c then path_state special is_file [] [] cs
             else path_state special is_file [] [] input)
          else if c = CHR ''?'' \<or> c = CHR ''#'' then []
          else if c = CHR ''/'' then path_state special is_file [] [] cs
          else path_state special is_file [] [] input)"

fun opaque_path_state :: "string \<Rightarrow> string" where
  "opaque_path_state [] = []"
| "opaque_path_state (c # cs) =
     (if c = CHR ''?'' \<or> c = CHR ''#'' then []
      else if c = CHR '' '' then
        (if cs \<noteq> [] \<and> (hd cs = CHR ''?'' \<or> hd cs = CHR ''#'') then ''%20'' else '' '')
          @ opaque_path_state cs
      else
        (if in_C0_control_percent_encode_set c then percent_encode_byte c else [c])
          @ opaque_path_state cs)"

subsection \<open>Authority, host and port\<close>

text \<open>The code points that end the authority, the host and the port.\<close>

definition ends_authority :: "bool \<Rightarrow> char \<Rightarrow> bool" where
  "ends_authority special c = (is_slash special c \<or> c = CHR ''?'' \<or> c = CHR ''#'')"

definition port_state :: "bool \<Rightarrow> string \<Rightarrow> string list option" where
  "port_state special input =
     (let buffer = takeWhile is_ASCII_digit input;
          rest = dropWhile is_ASCII_digit input
      in if rest = [] \<or> ends_authority special (hd rest) then
           (if buffer \<noteq> [] \<and> 65535 < radix_value 10 buffer then None
            else Some (path_start_state special False rest))
         else None)"

text \<open>
  The host state collects its buffer up to a \<^verbatim>\<open>:\<close> outside brackets or up to the end of the
  authority; \<open>host_buffer\<close> returns the buffer and what is left of the input.
\<close>

fun host_buffer :: "bool \<Rightarrow> bool \<Rightarrow> string \<Rightarrow> string \<Rightarrow> string \<times> string" where
  "host_buffer special insideBrackets buffer [] = (buffer, [])"
| "host_buffer special insideBrackets buffer (c # cs) =
     (if (c = CHR '':'' \<and> \<not> insideBrackets) \<or> ends_authority special c then (buffer, c # cs)
      else
        host_buffer special
          (if c = CHR ''['' then True else if c = CHR '']'' then False else insideBrackets)
          (buffer @ [c]) cs)"

definition host_state :: "(string \<Rightarrow> bool) \<Rightarrow> bool \<Rightarrow> string \<Rightarrow> string list option" where
  "host_state platform_host_ok special input =
     (let (buffer, rest) = host_buffer special False [] input
      in if rest \<noteq> [] \<and> hd rest = CHR '':'' then
           (if buffer = [] then None
            else if \<not> host_parser_ok platform_host_ok (\<not> special) buffer then None
            else port_state special (tl rest))
         else if special \<and> buffer = [] then None
         else if \<not> host_parser_ok platform_host_ok (\<not> special) buffer then None
         else Some (path_start_state special False rest))"

text \<open>
  The authority state reads up to the end of the authority, keeps what follows the last
  \<^verbatim>\<open>@\<close> for the host state, and fails when credentials are followed by nothing.
\<close>

definition authority_state :: "(string \<Rightarrow> bool) \<Rightarrow> bool \<Rightarrow> string \<Rightarrow> string list option" where
  "authority_state platform_host_ok special input =
     (let authority = takeWhile (\<lambda>c. \<not> ends_authority special c) input;
          rest = dropWhile (\<lambda>c. \<not> ends_authority special c) input
      in if CHR ''@'' \<in> set authority then
           (let hostport = rev (takeWhile (\<lambda>c. c \<noteq> CHR ''@'') (rev authority))
            in if hostport = [] then None
               else host_state platform_host_ok special (hostport @ rest))
         else host_state platform_host_ok special input)"

subsection \<open>The scheme and the three kinds of URL\<close>

text \<open>
  Before parsing, leading and trailing C0 controls and spaces are removed, and then every
  ASCII tab and newline.
\<close>

definition is_C0_control_or_space :: "char \<Rightarrow> bool" where
  "is_C0_control_or_space c = (byte c \<le> 32)"

definition is_ASCII_tab_or_newline :: "char \<Rightarrow> bool" where
  "is_ASCII_tab_or_newline c = (byte c \<in> {9, 10, 13})"

definition strip_input :: "string \<Rightarrow> string" where
  "strip_input input =
     filter (\<lambda>c. \<not> is_ASCII_tab_or_newline c)
       (rev (dropWhile is_C0_control_or_space (rev (dropWhile is_C0_control_or_space input))))"

text \<open>
  The scheme start state and the scheme state: an ASCII letter, then letters, digits,
  \<^verbatim>\<open>+\<close>, \<^verbatim>\<open>-\<close> and \<^verbatim>\<open>.\<close>, then \<^verbatim>\<open>:\<close>. The result is the lowercased scheme and the input
  after the colon. Anything else leads to the no scheme state, which fails when there is
  no base URL (\<open>None\<close>).
\<close>

definition is_scheme_char :: "char \<Rightarrow> bool" where
  "is_scheme_char c = (is_ASCII_alphanumeric c \<or> c = CHR ''+'' \<or> c = CHR ''-'' \<or> c = CHR ''.'')"

definition scheme_state :: "string \<Rightarrow> (string \<times> string) option" where
  "scheme_state input =
     (case input of
        [] \<Rightarrow> None
      | c # cs \<Rightarrow>
          if is_ASCII_alpha c then
            (case dropWhile is_scheme_char cs of
               [] \<Rightarrow> None
             | d # rest \<Rightarrow>
                 if d = CHR '':''
                 then Some (map ASCII_lowercase (c # takeWhile is_scheme_char cs), rest)
                 else None)
          else None)"

definition is_special_scheme :: "string \<Rightarrow> bool" where
  "is_special_scheme scheme = (scheme \<in> {''ftp'', ''file'', ''http'', ''https'', ''ws'', ''wss''})"

text \<open>The file state, the file slash state and the file host state (there is no base URL).\<close>

definition file_host_state :: "(string \<Rightarrow> bool) \<Rightarrow> string \<Rightarrow> string list option" where
  "file_host_state platform_host_ok input =
     (let buffer = takeWhile (\<lambda>c. \<not> ends_authority True c) input;
          rest = dropWhile (\<lambda>c. \<not> ends_authority True c) input
      in if is_Windows_drive_letter buffer then Some (path_state True True [] buffer rest)
         else if buffer = [] then Some (path_start_state True True rest)
         else if \<not> host_parser_ok platform_host_ok False buffer then None
         else Some (path_start_state True True rest))"

definition file_slash_state :: "(string \<Rightarrow> bool) \<Rightarrow> string \<Rightarrow> string list option" where
  "file_slash_state platform_host_ok input =
     (case input of
        [] \<Rightarrow> Some (path_state True True [] [] [])
      | c # cs \<Rightarrow>
          if is_slash True c then file_host_state platform_host_ok cs
          else Some (path_state True True [] [] input))"

definition file_state :: "(string \<Rightarrow> bool) \<Rightarrow> string \<Rightarrow> string list option" where
  "file_state platform_host_ok input =
     (case input of
        [] \<Rightarrow> Some (path_state True True [] [] [])
      | c # cs \<Rightarrow>
          if is_slash True c then file_slash_state platform_host_ok cs
          else Some (path_state True True [] [] input))"

text \<open>
  A URL's path is either opaque (a string) or a list of segments; the \<^verbatim>\<open>pathname\<close> getter
  returns the opaque path as it is and every segment of a list after a slash.
\<close>

datatype URL_path = OpaquePath string | PathSegments "string list"

fun URL_path_serializer :: "URL_path \<Rightarrow> string" where
  "URL_path_serializer (OpaquePath p) = p"
| "URL_path_serializer (PathSegments segments) = concat (map (\<lambda>segment. CHR ''/'' # segment) segments)"

text \<open>
  The basic URL parser without a base URL. After the scheme: \<^verbatim>\<open>file\<close> has its own states;
  another special scheme skips every slash and backslash and reads an authority; any other
  scheme reads an authority after \<^verbatim>\<open>//\<close>, a path after a single \<^verbatim>\<open>/\<close>, and an opaque
  path otherwise.
\<close>

definition basic_URL_parser :: "(string \<Rightarrow> bool) \<Rightarrow> string \<Rightarrow> URL_path option" where
  "basic_URL_parser platform_host_ok input =
     (case scheme_state (strip_input input) of
        None \<Rightarrow> None
      | Some (scheme, rest) \<Rightarrow>
          if scheme = ''file'' then map_option PathSegments (file_state platform_host_ok rest)
          else if is_special_scheme scheme then
            map_option PathSegments
              (authority_state platform_host_ok True (dropWhile (is_slash True) rest))
          else
            (case rest of
               [] \<Rightarrow> Some (OpaquePath [])
             | c # cs \<Rightarrow>
                 if c = CHR ''/'' then
                   (case cs of
                      [] \<Rightarrow> Some (PathSegments (path_state False False [] [] []))
                    | d # ds \<Rightarrow>
                        if d = CHR ''/''
                        then map_option PathSegments (authority_state platform_host_ok False ds)
                        else Some (PathSegments (path_state False False [] [] cs)))
                 else Some (OpaquePath (opaque_path_state rest))))"

text \<open>\<^verbatim>\<open>new URL(input)\<close>: \<open>None\<close> stands for the thrown \<^verbatim>\<open>TypeError\<close>.\<close>

definition URL_constructor :: "(string \<Rightarrow> bool) \<Rightarrow> string \<Rightarrow> URL option" where
  "URL_constructor platform_host_ok input =
     map_option (\<lambda>path. \<lparr>pathname = URL_path_serializer path\<rparr>)
       (basic_URL_parser platform_host_ok input)"

text \<open>
  A stand-in for the browser's verdict on the hosts the model does not decide, used where
  a concrete constructor is evaluated. None of the inputs evaluated in this theory has
  such a host.
\<close>

definition no_IPv6_no_IDNA :: "string \<Rightarrow> bool" where
  "no_IPv6_no_IDNA host = False"

section \<open>The \<^verbatim>\<open>Toolbox\<close> component\<close>

text \<open>
  \<^verbatim>\<open>Toolbox\<close> is a function component. It reads its two props, a number of values selected
  from the Redux store, and the results of helpers that live in other files; it returns an
  element or \<^verbatim>\<open>null\<close>, registers three effects and builds six callbacks. The
  handlers and the effects call \<^verbatim>\<open>dispatch\<close> with actions; a run of a handler or an effect
  is modelled by the list of the actions it dispatches, in order.
\<close>

subsection \<open>Actions\<close>

text \<open>The four action creators imported from \<^verbatim>\<open>actions.web\<close>, as the intents they build.\<close>

datatype action =
    setHangupMenuVisible bool
  | setOverflowMenuVisible bool
  | setToolbarHovered bool
  | showToolbox

subsection \<open>Props, selected values and helpers\<close>

text \<open>The keyboard event a key handler receives; the handler reads its \<^verbatim>\<open>key\<close> only.\<close>

record KeyboardEvent =
  key :: string

text \<open>
  A toolbar button as \<^verbatim>\<open>getVisibleButtons\<close> returns it. The render loop takes it apart as
  \<^verbatim>\<open>{ Content, key, ...rest }\<close>; \<open>rest\<close> holds the remaining properties by name. Components
  are compared by identity, and \<^verbatim>\<open>Separator\<close> is the one the loop compares with.
\<close>

datatype component = Separator | ButtonComponent string

record button =
  Content :: component
  key :: string
  rest :: "(string \<times> string) list"

text \<open>The conference object, reduced to what \<^verbatim>\<open>isEndConferenceSupported()\<close> returns.\<close>

record conference_object =
  isEndConferenceSupported :: bool

type_synonym notify_click_modes = "string \<Rightarrow> string option"
type_synonym thresholds = "(int \<times> string list) list"

record Toolbox_props =
  isConferenceJoined :: bool
  toolbarButtons :: "string list option"

text \<open>
  The values of the \<^verbatim>\<open>useSelector\<close> calls, under the names of the constants they are
  bound to. A field of type \<open>bool\<close> holds the truthiness of the selected value, which is all
  the component reads of it; an absent \<^verbatim>\<open>conference\<close> is \<open>None\<close>. The store types
  \<^verbatim>\<open>buttonsWithNotifyClick\<close> as a \<^verbatim>\<open>Map\<close>, so it is always present.
\<close>

record Toolbox_selected =
  conference :: "conference_object option"
  isNarrowLayout :: bool
  clientWidth :: int
  isModerator :: bool
  iAmRecorder :: bool
  iAmSipGateway :: bool
  overflowDrawer :: bool
  shiftUp :: bool
  overflowMenuVisible :: bool
  hangupMenuVisible :: bool
  buttonsWithNotifyClick :: notify_click_modes
  reduxToolbarButtons :: "string list"
  chatOpen :: bool
  isDialogVisible :: bool
  toolbarVisible :: bool
  mainToolbarButtonsThresholds :: thresholds

text \<open>
  What the component gets from code outside this file: \<^verbatim>\<open>isMobileBrowser()\<close>, the
  translation function \<^verbatim>\<open>t\<close>, the generated class name \<^verbatim>\<open>classes.hangupMenu\<close>, the value
  of \<^verbatim>\<open>useToolboxButtons(customToolbarButtons)\<close>, the value of
  \<^verbatim>\<open>getJwtDisabledButtons(transcribing, isModerator, jwt, localParticipant?.features)\<close>,
  and the functions \<^verbatim>\<open>isButtonEnabled\<close> and \<^verbatim>\<open>getVisibleButtons\<close> of \<^verbatim>\<open>functions.web\<close>.
  \<^verbatim>\<open>getVisibleButtons\<close> takes one object with six properties; here it takes them in the
  order \<^verbatim>\<open>allButtons\<close>, \<^verbatim>\<open>buttonsWithNotifyClick\<close>, \<^verbatim>\<open>toolbarButtons\<close>, \<^verbatim>\<open>clientWidth\<close>,
  \<^verbatim>\<open>jwtDisabledButtons\<close>, \<^verbatim>\<open>mainToolbarButtonsThresholds\<close> and returns the pair
  \<^verbatim>\<open>(mainMenuButtons, overflowMenuButtons)\<close>.
\<close>

record Toolbox_env =
  isMobileBrowser :: bool
  translation :: "string \<Rightarrow> string"
  classes_hangupMenu :: string
  allButtons :: "(string \<times> button) list"
  jwtDisabledButtons :: "string list"
  isButtonEnabled :: "string \<Rightarrow> string list \<Rightarrow> bool"
  getVisibleButtons ::
    "(string \<times> button) list \<Rightarrow> notify_click_modes \<Rightarrow> string list \<Rightarrow> int \<Rightarrow> string list
       \<Rightarrow> thresholds \<Rightarrow> button list \<times> button list"

subsection \<open>Handlers\<close>

definition onSetHangupVisible :: "bool \<Rightarrow> action list" where
  "onSetHangupVisible visible = [setHangupMenuVisible visible, setToolbarHovered visible]"

definition onSetOverflowVisible :: "bool \<Rightarrow> action list" where
  "onSetOverflowVisible visible = [setOverflowMenuVisible visible, setToolbarHovered visible]"

text \<open>
  \<^verbatim>\<open>onEscKey\<close> takes an optional event. The result is the dispatched actions and whether
  \<^verbatim>\<open>stopPropagation\<close> was called.
\<close>

definition onEscKey :: "Toolbox_selected \<Rightarrow> KeyboardEvent option \<Rightarrow> action list \<times> bool" where
  "onEscKey sel e =
     (case e of
        None \<Rightarrow> ([], False)
      | Some ev \<Rightarrow>
          if KeyboardEvent.key ev = ''Escape'' then
            ((if hangupMenuVisible sel then [setHangupMenuVisible False] else []) @
             (if overflowMenuVisible sel then [setOverflowMenuVisible False] else []),
             True)
          else ([], False))"

definition onMouseOut :: "Toolbox_selected \<Rightarrow> action list" where
  "onMouseOut sel = (if \<not> overflowMenuVisible sel then [setToolbarHovered False] else [])"

definition onMouseOver :: "action list" where
  "onMouseOver = [setToolbarHovered True]"

definition onTabIn :: "Toolbox_selected \<Rightarrow> action list" where
  "onTabIn sel = (if \<not> toolbarVisible sel then [showToolbox] else [])"

subsection \<open>Effects\<close>

text \<open>
  The first effect blurs the focused element when the toolbar is hidden and the focus is
  inside the toolbox; it dispatches nothing. \<open>focusInside\<close> says that
  \<^verbatim>\<open>document.activeElement\<close> is an \<^verbatim>\<open>HTMLElement\<close> contained in the toolbox; the result
  says whether \<^verbatim>\<open>blur()\<close> is called.
\<close>

definition blurEffect :: "Toolbox_selected \<Rightarrow> bool \<Rightarrow> bool" where
  "blurEffect sel focusInside = (\<not> toolbarVisible sel \<and> focusInside)"

definition hangupMenuEffect :: "Toolbox_selected \<Rightarrow> action list" where
  "hangupMenuEffect sel =
     (if hangupMenuVisible sel \<and> \<not> toolbarVisible sel
      then onSetHangupVisible False @ [setToolbarHovered False]
      else [])"

definition overflowMenuEffect :: "Toolbox_selected \<Rightarrow> action list" where
  "overflowMenuEffect sel =
     (if overflowMenuVisible sel \<and> isDialogVisible sel
      then onSetOverflowVisible False @ [setToolbarHovered False]
      else [])"

text \<open>
  React runs an effect after the commit that mounts the component and after every later
  commit in which a value of the effect's dependency list differs from its value at the
  previous commit. \<^verbatim>\<open>dispatch\<close> and the two \<^verbatim>\<open>useCallback\<close> handlers whose only dependency
  is \<^verbatim>\<open>dispatch\<close> keep their identity, so what can change in the list
  \<^verbatim>\<open>[ dispatch, hangupMenuVisible, toolbarVisible, onSetHangupVisible ]\<close> is the pair of the
  two flags, and likewise for the overflow menu. The effects are registered before the
  early \<^verbatim>\<open>return null\<close>, so they run whatever the component renders.
\<close>

definition useEffect :: "'d option \<Rightarrow> 'd \<Rightarrow> action list \<Rightarrow> action list" where
  "useEffect previous deps effect = (if previous = Some deps then [] else effect)"

definition hangupMenuEffect_deps :: "Toolbox_selected \<Rightarrow> bool \<times> bool" where
  "hangupMenuEffect_deps sel = (hangupMenuVisible sel, toolbarVisible sel)"

definition overflowMenuEffect_deps :: "Toolbox_selected \<Rightarrow> bool \<times> bool" where
  "overflowMenuEffect_deps sel = (overflowMenuVisible sel, isDialogVisible sel)"

text \<open>
  What a mounted component remembers between commits: the dependencies of each menu effect
  at the previous commit (\<open>None\<close> before the first commit).
\<close>

record effect_memory =
  hangupMenu_previous :: "(bool \<times> bool) option"
  overflowMenu_previous :: "(bool \<times> bool) option"


text \<open>
  One step of the component: a commit with the selected values \<open>sel\<close> runs the due effects
  in the order of their registration. The result is the dispatched actions and the new
  memory.
\<close>

definition commit :: "effect_memory \<Rightarrow> Toolbox_selected \<Rightarrow> action list \<times> effect_memory" where
  "commit m sel =
     (useEffect (hangupMenu_previous m) (hangupMenuEffect_deps sel) (hangupMenuEffect sel) @
      useEffect (overflowMenu_previous m) (overflowMenuEffect_deps sel) (overflowMenuEffect sel),
      \<lparr>hangupMenu_previous = Some (hangupMenuEffect_deps sel),
       overflowMenu_previous = Some (overflowMenuEffect_deps sel)\<rparr>)"

text \<open>
  A run of the component from memory \<open>m\<close> through a sequence of commits: the actions each
  commit dispatches.
\<close>

fun commits :: "effect_memory \<Rightarrow> Toolbox_selected list \<Rightarrow> action list list" where
  "commits m [] = []"
| "commits m (sel # sels) = fst (commit m sel) # commits (snd (commit m sel)) sels"


subsection \<open>Rendering\<close>

text \<open>
  The elements the component creates, each with the props the source passes, in the
  source's order. Function-valued props are left out: \<^verbatim>\<open>HangupMenuButton\<close> gets
  \<^verbatim>\<open>onSetHangupVisible\<close> as \<^verbatim>\<open>onVisibilityChange\<close> and \<^verbatim>\<open>ContextMenu\<close> gets \<^verbatim>\<open>onEscKey\<close>
  as \<^verbatim>\<open>onKeyDown\<close>.
\<close>

datatype element =
    ContentElement component "(string \<times> string) list" string string
      \<comment> \<open>\<^verbatim>\<open><Content {...rest} buttonKey key />\<close>\<close>
  | HangupMenuButton string bool string "string option" "element list"
      \<comment> \<open>\<^verbatim>\<open>ariaControls\<close>, \<^verbatim>\<open>isOpen\<close>, \<^verbatim>\<open>key\<close>, \<^verbatim>\<open>notifyMode\<close>, children\<close>
  | ContextMenu string string bool bool "element list"
      \<comment> \<open>\<^verbatim>\<open>accessibilityLabel\<close>, \<^verbatim>\<open>className\<close>, \<^verbatim>\<open>hidden\<close>, \<^verbatim>\<open>inDrawer\<close>, children\<close>
  | EndConferenceButton string "string option"
      \<comment> \<open>\<^verbatim>\<open>buttonKey\<close>, \<^verbatim>\<open>notifyMode\<close>\<close>
  | LeaveConferenceButton string "string option"
      \<comment> \<open>\<^verbatim>\<open>buttonKey\<close>, \<^verbatim>\<open>notifyMode\<close>\<close>
  | HangupButton string string string "string option" bool
      \<comment> \<open>\<^verbatim>\<open>buttonKey\<close>, \<^verbatim>\<open>customClass\<close>, \<^verbatim>\<open>key\<close>, \<^verbatim>\<open>notifyMode\<close>, \<^verbatim>\<open>visible\<close>\<close>

text \<open>
  The value of a JSX expression \<^verbatim>\<open>{cond && <X />}\<close>: \<^verbatim>\<open>false\<close> or an element. React
  renders nothing for \<^verbatim>\<open>false\<close>.
\<close>

datatype jsx = JSX_false | JSX element

fun rendered :: "jsx list \<Rightarrow> element list" where
  "rendered [] = []"
| "rendered (JSX_false # xs) = rendered xs"
| "rendered (JSX e # xs) = e # rendered xs"

text \<open>
  The element \<^verbatim>\<open>Toolbox\<close> returns: the root \<^verbatim>\<open>div\<close> with the two arguments of \<^verbatim>\<open>cx\<close>, the
  container's class name, whether the wrapper carries the two mouse handlers, and the two
  child expressions of the \<^verbatim>\<open>toolbox-content-items\<close> row: the mapped buttons and the hangup
  control.
\<close>

record Toolbox_element =
  rootClassNames :: string
  shiftUpClass :: "string option"
  containerClassName :: string
  mouseHandlers :: bool
  contentItems :: "jsx list"
  hangupItem :: jsx

text \<open>\<^verbatim>\<open>toolbarButtons || reduxToolbarButtons\<close>: an array is truthy even when it is empty.\<close>

definition toolbarButtonsToUse :: "Toolbox_props \<Rightarrow> Toolbox_selected \<Rightarrow> string list" where
  "toolbarButtonsToUse props sel =
     (case toolbarButtons props of Some buttons \<Rightarrow> buttons | None \<Rightarrow> reduxToolbarButtons sel)"

text \<open>\<^verbatim>\<open>Boolean(conference?.isEndConferenceSupported() && isModerator)\<close>.\<close>

definition endConferenceSupported :: "Toolbox_selected \<Rightarrow> bool" where
  "endConferenceSupported sel =
     (case conference sel of
        None \<Rightarrow> False
      | Some c \<Rightarrow> isEndConferenceSupported c \<and> isModerator sel)"

text \<open>The template literal of the root's class names; its third gap holds a line break.\<close>

definition rootClassNames_template :: "Toolbox_props \<Rightarrow> Toolbox_selected \<Rightarrow> string" where
  "rootClassNames_template props sel =
     ''new-toolbox '' @ (if toolbarVisible sel then ''visible'' else []) @ '' '' @
     (if length (toolbarButtonsToUse props sel) \<noteq> 0 then [] else ''no-buttons'') @ '' '' @
     (if chatOpen sel then ''shift-right'' else []) @ '' '' @ [CHR 0x0A] @ ''        '' @
     (if isConferenceJoined props then ''conference-joined-toolbox'' else [])"

text \<open>The call of \<^verbatim>\<open>getVisibleButtons\<close> with the six values the component passes.\<close>

definition visibleButtons ::
  "Toolbox_env \<Rightarrow> Toolbox_props \<Rightarrow> Toolbox_selected \<Rightarrow> button list \<times> button list" where
  "visibleButtons env props sel =
     getVisibleButtons env (allButtons env) (buttonsWithNotifyClick sel)
       (toolbarButtonsToUse props sel) (clientWidth sel) (jwtDisabledButtons env)
       (mainToolbarButtonsThresholds sel)"

text \<open>The callback of \<^verbatim>\<open>toolMainMenuButtons.map\<close>.\<close>

definition renderButton :: "button \<Rightarrow> jsx" where
  "renderButton b =
     (if Content b \<noteq> Separator then JSX (ContentElement (Content b) (rest b) (key b) (key b))
      else JSX_false)"

text \<open>The hangup control: the expression after the mapped buttons.\<close>

definition renderHangup :: "Toolbox_env \<Rightarrow> Toolbox_props \<Rightarrow> Toolbox_selected \<Rightarrow> jsx" where
  "renderHangup env props sel =
     (if isButtonEnabled env ''hangup'' (toolbarButtonsToUse props sel) then
        (if endConferenceSupported sel then
           JSX (HangupMenuButton ''hangup-menu'' (hangupMenuVisible sel) ''hangup-menu''
                  (buttonsWithNotifyClick sel ''hangup-menu'')
                  [ContextMenu (translation env ''toolbar.accessibilityLabel.moreActionsMenu'')
                     (classes_hangupMenu env) False (overflowDrawer sel)
                     [EndConferenceButton ''end-meeting'' (buttonsWithNotifyClick sel ''end-meeting''),
                      LeaveConferenceButton ''hangup'' (buttonsWithNotifyClick sel ''hangup'')]])
         else
           JSX (HangupButton ''hangup'' ''hangup-button'' ''hangup-button''
                  (buttonsWithNotifyClick sel ''hangup'')
                  (isButtonEnabled env ''hangup'' (toolbarButtonsToUse props sel))))
      else JSX_false)"

text \<open>The component's return value; \<open>None\<close> is \<^verbatim>\<open>null\<close>.\<close>

definition Toolbox :: "Toolbox_env \<Rightarrow> Toolbox_props \<Rightarrow> Toolbox_selected \<Rightarrow> Toolbox_element option" where
  "Toolbox env props sel =
     (if iAmRecorder sel \<or> iAmSipGateway sel then None
      else
        (let isMobile = isMobileBrowser env;
             (mainMenuButtons, overflowMenuButtons) = visibleButtons env props sel;
             toolMainMenuButtons = mainMenuButtons @ overflowMenuButtons
         in Some
             \<lparr>rootClassNames = rootClassNames_template props sel,
              shiftUpClass = (if shiftUp sel then Some ''shift-up'' else None),
              containerClassName =
                ''toolbox-content'' @
                (if isMobile \<or> isNarrowLayout sel then '' toolbox-content-mobile'' else []),
              mouseHandlers = (\<not> isMobile),
              contentItems = map renderButton toolMainMenuButtons,
              hangupItem = renderHangup env props sel\<rparr>))"


definition renderedHangup :: "Toolbox_element option \<Rightarrow> element list" where
  "renderedHangup r = (case r of None \<Rightarrow> [] | Some root \<Rightarrow> rendered [hangupItem root])"

section \<open>The \<^verbatim>\<open>SharedVideo\<close> component\<close>

subsection \<open>Numbers in template literals\<close>

text \<open>
  The pixel quantities the component computes with (\<^verbatim>\<open>clientWidth\<close>, \<^verbatim>\<open>clientHeight\<close>, the
  filmstrip's width and height, the toolbox's height) are whole numbers of pixels. They are
  modelled as integers, on which JavaScript's subtraction is exact and the conversion to a
  string gives the decimal digits, with a minus sign for a negative number. Values that
  are not integers, not finite or beyond the range of exact integers are outside the
  model.
\<close>

fun decimal_digits :: "nat \<Rightarrow> string" where
  "decimal_digits n =
     (if n < 10 then [char_of (48 + n)]
      else decimal_digits (n div 10) @ [char_of (48 + n mod 10)])"

declare decimal_digits.simps [simp del]

definition Number_toString :: "int \<Rightarrow> string" where
  "Number_toString n =
     (if n < 0 then CHR ''-'' # decimal_digits (nat (- n)) else decimal_digits (nat n))"

text \<open>The template literal \<^verbatim>\<open>`${n}px`\<close>.\<close>

definition px :: "int \<Rightarrow> string" where
  "px n = Number_toString n @ ''px''"



subsection \<open>Props and helpers\<close>

record SharedVideo_props =
  clientHeight :: int
  clientWidth :: int
  filmstripVisible :: bool
  filmstripWidth :: int
  isEnabled :: bool
  isOwner :: bool
  isResizing :: bool
  videoUrl :: "string option"

text \<open>
  What the component gets from outside this file: the truthiness of
  \<^verbatim>\<open>interfaceConfig.VERTICAL_FILMSTRIP\<close>, the values of \<^verbatim>\<open>getToolboxHeight()\<close> and
  \<^verbatim>\<open>Filmstrip.getFilmstripHeight()\<close>, and the platform's \<^verbatim>\<open>URL\<close> constructor
  (\<open>None\<close> when it throws).
\<close>

record SharedVideo_env =
  VERTICAL_FILMSTRIP :: bool
  getToolboxHeight :: int
  getFilmstripHeight :: int
  new_URL :: "string \<Rightarrow> URL option"

subsection \<open>\<^verbatim>\<open>getDimensions\<close>\<close>

record dimensions =
  width :: string
  height :: string

definition getDimensions :: "SharedVideo_env \<Rightarrow> SharedVideo_props \<Rightarrow> dimensions" where
  "getDimensions env props =
     (if VERTICAL_FILMSTRIP env then
        \<lparr>width = (if filmstripVisible props then px (clientWidth props - filmstripWidth props)
                  else px (clientWidth props)),
         height = px (clientHeight props - getToolboxHeight env)\<rparr>
      else
        \<lparr>width = px (clientWidth props),
         height = (if filmstripVisible props then px (clientHeight props - getFilmstripHeight env)
                   else px (clientHeight props))\<rparr>)"

subsection \<open>\<^verbatim>\<open>getManager\<close>\<close>

text \<open>The three manager elements, each with its \<^verbatim>\<open>videoId\<close> prop.\<close>

datatype manager =
    ExtendedVideoManager string
  | VideoManager string
  | YoutubeVideoManager string

text \<open>
  The result is \<open>Inl\<close> of the error when the method throws, and otherwise \<open>Inr\<close> of the
  returned value, \<open>None\<close> for \<^verbatim>\<open>null\<close>. \<^verbatim>\<open>!videoUrl\<close> holds for an absent and for an empty
  string.
\<close>

definition getManager :: "SharedVideo_env \<Rightarrow> SharedVideo_props \<Rightarrow> js_error + manager option" where
  "getManager env props =
     (case videoUrl props of
        None \<Rightarrow> Inr None
      | Some url \<Rightarrow>
          if url = [] then Inr None
          else if match_literal ''http'' url then
            (case new_URL env url of
               None \<Rightarrow> Inl TypeError
             | Some vUrl \<Rightarrow>
                 if endsWith (pathname vUrl) ''.flv'' \<or> endsWith (pathname vUrl) ''.m3u8''
                 then Inr (Some (ExtendedVideoManager url))
                 else Inr (Some (VideoManager url)))
          else Inr (Some (YoutubeVideoManager url)))"

subsection \<open>\<^verbatim>\<open>render\<close>\<close>

text \<open>The \<^verbatim>\<open>div\<close> the component renders, with its three attributes and its child.\<close>

record div_element =
  className :: string
  element_id :: string
  style :: dimensions
  child :: "manager option"

definition render :: "SharedVideo_env \<Rightarrow> SharedVideo_props \<Rightarrow> js_error + div_element option" where
  "render env props =
     (if \<not> isEnabled props then Inr None
      else
        (let className = (if \<not> isResizing props \<and> isOwner props then [] else ''disable-pointer'')
         in case getManager env props of
              Inl err \<Rightarrow> Inl err
            | Inr manager \<Rightarrow>
                Inr (Some \<lparr>className = className, element_id = ''sharedVideo'',
                           style = getDimensions env props, child = manager\<rparr>)))"

text \<open>The environment with the model of the constructor, for evaluation at concrete inputs.\<close>

definition browser_env :: "bool \<Rightarrow> int \<Rightarrow> int \<Rightarrow> SharedVideo_env" where
  "browser_env vertical toolboxHeight filmstripHeight =
     \<lparr>VERTICAL_FILMSTRIP = vertical, getToolboxHeight = toolboxHeight,
      getFilmstripHeight = filmstripHeight, new_URL = URL_constructor no_IPv6_no_IDNA\<rparr>"

section \<open>Concrete inputs\<close>

text \<open>The inputs at which the theorems below are evaluated.\<close>

definition sample_props :: "string option \<Rightarrow> SharedVideo_props" where
  "sample_props url =
     \<lparr>clientHeight = 720, clientWidth = 1280, filmstripVisible = True, filmstripWidth = 120,
      isEnabled = True, isOwner = True, isResizing = False, videoUrl = url\<rparr>"

text \<open>
  Stand-ins for the two functions of \<^verbatim>\<open>functions.web\<close>: a button is enabled when the
  toolbar button list includes its name, and the visible buttons are a microphone button
  in the main menu and a separator and a chat button in the overflow menu.
\<close>

definition sample_isButtonEnabled :: "string \<Rightarrow> string list \<Rightarrow> bool" where
  "sample_isButtonEnabled buttonName buttons = (buttonName \<in> set buttons)"

definition microphone_button :: button where
  "microphone_button =
     \<lparr>Content = ButtonComponent ''AudioSettingsButton'', key = ''microphone'',
      rest = [(''group'', ''0'')]\<rparr>"

definition separator_entry :: button where
  "separator_entry = \<lparr>Content = Separator, key = ''separator1'', rest = []\<rparr>"

definition chat_button :: button where
  "chat_button =
     \<lparr>Content = ButtonComponent ''ChatButton'', key = ''chat'', rest = [(''group'', ''2'')]\<rparr>"

definition sample_getVisibleButtons ::
  "(string \<times> button) list \<Rightarrow> notify_click_modes \<Rightarrow> string list \<Rightarrow> int \<Rightarrow> string list
     \<Rightarrow> thresholds \<Rightarrow> button list \<times> button list" where
  "sample_getVisibleButtons everyButton notify buttons viewportWidth disabled limits =
     ([microphone_button], [separator_entry, chat_button])"

definition sample_env :: Toolbox_env where
  "sample_env =
     \<lparr>isMobileBrowser = False,
      translation = (\<lambda>k. k),
      classes_hangupMenu = ''hangupMenu'',
      allButtons = [(''microphone'', microphone_button), (''chat'', chat_button)],
      jwtDisabledButtons = [],
      isButtonEnabled = sample_isButtonEnabled,
      getVisibleButtons = sample_getVisibleButtons\<rparr>"

definition sample_Toolbox_props :: Toolbox_props where
  "sample_Toolbox_props = \<lparr>isConferenceJoined = True, toolbarButtons = None\<rparr>"

definition sample_selected :: Toolbox_selected where
  "sample_selected =
     \<lparr>conference = Some \<lparr>isEndConferenceSupported = True\<rparr>,
      isNarrowLayout = False,
      Toolbox_selected.clientWidth = 1280,
      isModerator = True,
      iAmRecorder = False,
      iAmSipGateway = False,
      overflowDrawer = False,
      shiftUp = False,
      overflowMenuVisible = False,
      hangupMenuVisible = False,
      buttonsWithNotifyClick = Map.empty,
      reduxToolbarButtons = [''microphone'', ''chat'', ''hangup''],
      chatOpen = False,
      isDialogVisible = False,
      toolbarVisible = True,
      mainToolbarButtonsThresholds = []\<rparr>"


section \<open>Properties of \<^verbatim>\<open>SharedVideo\<close>\<close>

subsection \<open>The string operations meet their descriptions\<close>

text \<open>
  The scan of \<open>match_literal\<close> finds the literal exactly when the string contains it as a
  contiguous substring, and \<open>endsWith\<close> is the suffix relation.
\<close>

lemma match_literal_sublist: "match_literal lit s \<longleftrightarrow> sublist lit s"
  by (induction s) (simp_all add: sublist_Cons_right)

lemma endsWith_suffix: "endsWith s t \<longleftrightarrow> suffix t s"
proof
  assume "endsWith s t"
  then have "s = take (length s - length t) s @ t"
    by (metis append_take_drop_id endsWith_def)
  then show "suffix t s" by (metis suffixI)
next
  assume "suffix t s"
  then obtain p where "s = p @ t" by (auto simp: suffix_def)
  then show "endsWith s t" by (simp add: endsWith_def)
qed

subsection \<open>\<^verbatim>\<open>getManager\<close> selects the manager from the URL\<close>

text \<open>
  Claim C1, as amended. For every \<^verbatim>\<open>videoUrl\<close> prop and every \<^verbatim>\<open>URL\<close> constructor,
  \<^verbatim>\<open>getManager\<close> decides from the URL string alone: it returns \<^verbatim>\<open>null\<close> when \<^verbatim>\<open>videoUrl\<close> is
  absent or empty; when \<^verbatim>\<open>videoUrl\<close> contains \<^verbatim>\<open>http\<close> and the constructor accepts it, it
  returns an \<^verbatim>\<open>ExtendedVideoManager\<close> if the parsed pathname ends with \<^verbatim>\<open>.flv\<close> or \<^verbatim>\<open>.m3u8\<close>
  and a \<^verbatim>\<open>VideoManager\<close> otherwise; when \<^verbatim>\<open>videoUrl\<close> contains \<^verbatim>\<open>http\<close> and the constructor
  rejects it, the constructor's \<^verbatim>\<open>TypeError\<close> leaves the method; in every other case it
  returns a \<^verbatim>\<open>YoutubeVideoManager\<close>. Each manager's \<^verbatim>\<open>videoId\<close> is \<^verbatim>\<open>videoUrl\<close>.
\<close>

theorem getManager_by_URL_shape:
  "(videoUrl props = None \<or> videoUrl props = Some [] \<longrightarrow> getManager env props = Inr None) \<and>
   (videoUrl props = Some url \<and> url \<noteq> [] \<and> sublist ''http'' url \<and> new_URL env url = Some vUrl \<and>
      (suffix ''.flv'' (pathname vUrl) \<or> suffix ''.m3u8'' (pathname vUrl))
      \<longrightarrow> getManager env props = Inr (Some (ExtendedVideoManager url))) \<and>
   (videoUrl props = Some url \<and> url \<noteq> [] \<and> sublist ''http'' url \<and> new_URL env url = Some vUrl \<and>
      \<not> (suffix ''.flv'' (pathname vUrl) \<or> suffix ''.m3u8'' (pathname vUrl))
      \<longrightarrow> getManager env props = Inr (Some (VideoManager url))) \<and>
   (videoUrl props = Some url \<and> url \<noteq> [] \<and> sublist ''http'' url \<and> new_URL env url = None
      \<longrightarrow> getManager env props = Inl TypeError) \<and>
   (videoUrl props = Some url \<and> url \<noteq> [] \<and> \<not> sublist ''http'' url
      \<longrightarrow> getManager env props = Inr (Some (YoutubeVideoManager url)))"
  by (auto simp: getManager_def match_literal_sublist endsWith_suffix)

text \<open>
  The five cases at concrete inputs, with the model of the browser's constructor: no URL,
  an HLS stream, an MP4 file, a URL whose colon was left out, and a YouTube video id.
\<close>

theorem getManager_by_URL_shape_witness:
  "getManager (browser_env True 80 160) (sample_props None) = Inr None \<and>
   getManager (browser_env True 80 160) (sample_props (Some ''https://example.com/live/stream.m3u8''))
     = Inr (Some (ExtendedVideoManager ''https://example.com/live/stream.m3u8'')) \<and>
   getManager (browser_env True 80 160) (sample_props (Some ''https://example.com/video.mp4''))
     = Inr (Some (VideoManager ''https://example.com/video.mp4'')) \<and>
   getManager (browser_env True 80 160) (sample_props (Some ''http//example.com/video.mp4''))
     = Inl TypeError \<and>
   getManager (browser_env True 80 160) (sample_props (Some ''dQw4w9WgXcQ''))
     = Inr (Some (YoutubeVideoManager ''dQw4w9WgXcQ''))"
proof -
  let ?env = "browser_env True 80 160"
  have a: "videoUrl (sample_props None) = None"
    by (simp add: sample_props_def)
  have u: "\<And>x. videoUrl (sample_props (Some x)) = Some x"
    by (simp add: sample_props_def)
  have e: "new_URL ?env = URL_constructor no_IPv6_no_IDNA"
    by (simp add: browser_env_def)
  have b1: "sublist ''http'' ''https://example.com/live/stream.m3u8''" by code_simp
  have b2: "URL_constructor no_IPv6_no_IDNA ''https://example.com/live/stream.m3u8''
              = Some \<lparr>pathname = ''/live/stream.m3u8''\<rparr>" by code_simp
  have b3: "suffix ''.m3u8'' ''/live/stream.m3u8''" by code_simp
  have c1: "sublist ''http'' ''https://example.com/video.mp4''" by code_simp
  have c2: "URL_constructor no_IPv6_no_IDNA ''https://example.com/video.mp4''
              = Some \<lparr>pathname = ''/video.mp4''\<rparr>" by code_simp
  have c3: "\<not> (suffix ''.flv'' ''/video.mp4'' \<or> suffix ''.m3u8'' ''/video.mp4'')" by code_simp
  have d1: "sublist ''http'' ''http//example.com/video.mp4''" by code_simp
  have d2: "URL_constructor no_IPv6_no_IDNA ''http//example.com/video.mp4'' = None" by code_simp
  have y1: "\<not> sublist ''http'' ''dQw4w9WgXcQ''" by code_simp
  show ?thesis
    using getManager_by_URL_shape [where props = "sample_props None" and env = ?env]
      getManager_by_URL_shape [where props = "sample_props (Some ''https://example.com/live/stream.m3u8'')"
        and url = "''https://example.com/live/stream.m3u8''" and env = ?env
        and vUrl = "\<lparr>pathname = ''/live/stream.m3u8''\<rparr>"]
      getManager_by_URL_shape [where props = "sample_props (Some ''https://example.com/video.mp4'')"
        and url = "''https://example.com/video.mp4''" and env = ?env
        and vUrl = "\<lparr>pathname = ''/video.mp4''\<rparr>"]
      getManager_by_URL_shape [where props = "sample_props (Some ''http//example.com/video.mp4'')"
        and url = "''http//example.com/video.mp4''" and env = ?env]
      getManager_by_URL_shape [where props = "sample_props (Some ''dQw4w9WgXcQ'')"
        and url = "''dQw4w9WgXcQ''" and env = ?env]
    by (simp add: a u e b1 b2 b3 c1 c2 c3 d1 d2 y1)
qed

text \<open>
  The claim as it was stated promises a \<^verbatim>\<open>VideoManager\<close> for every \<^verbatim>\<open>videoUrl\<close> that
  contains \<^verbatim>\<open>http\<close> and whose pathname has neither ending. The string \<^verbatim>\<open>http\<close> contains
  \<^verbatim>\<open>http\<close>, is not a URL, and makes the method throw.
\<close>

theorem getManager_VideoManager_counterexample:
  "sublist ''http'' ''http'' \<and>
   getManager (browser_env True 80 160) (sample_props (Some ''http'')) = Inl TypeError \<and>
   getManager (browser_env True 80 160) (sample_props (Some ''http''))
     \<noteq> Inr (Some (VideoManager ''http''))"
proof -
  have "getManager (browser_env True 80 160) (sample_props (Some ''http'')) = Inl TypeError"
    by code_simp
  then show ?thesis by simp
qed

subsection \<open>\<^verbatim>\<open>getManager\<close> can throw\<close>

text \<open>
  Without a base URL the parser fails on every input that has no scheme, in particular on
  every input without a colon.
\<close>

lemma strip_input_subset: "set (strip_input s) \<subseteq> set s"
proof
  fix x
  assume "x \<in> set (strip_input s)"
  then have "x \<in> set (dropWhile is_C0_control_or_space
                (rev (dropWhile is_C0_control_or_space s)))"
    by (simp add: strip_input_def)
  then have "x \<in> set (rev (dropWhile is_C0_control_or_space s))"
    by (rule set_dropWhileD)
  then have "x \<in> set (dropWhile is_C0_control_or_space s)"
    by simp
  then show "x \<in> set s"
    by (rule set_dropWhileD)
qed

lemma scheme_state_colon: "scheme_state s = Some r \<Longrightarrow> CHR '':'' \<in> set s"
proof -
  assume a: "scheme_state s = Some r"
  then obtain c cs where s: "s = c # cs"
    by (cases s) (auto simp: scheme_state_def)
  from a s obtain rest where "dropWhile is_scheme_char cs = CHR '':'' # rest"
    by (auto simp: scheme_state_def split: if_splits list.splits)
  then have "CHR '':'' \<in> set (dropWhile is_scheme_char cs)" by simp
  then have "CHR '':'' \<in> set cs" by (rule set_dropWhileD)
  then show ?thesis using s by simp
qed

lemma URL_constructor_needs_colon:
  assumes "CHR '':'' \<notin> set url"
  shows "URL_constructor platform_host_ok url = None"
proof -
  have "CHR '':'' \<notin> set (strip_input url)"
    using assms strip_input_subset by blast
  then have "scheme_state (strip_input url) = None"
    using scheme_state_colon by (cases "scheme_state (strip_input url)") auto
  then show ?thesis
    by (simp add: URL_constructor_def basic_URL_parser_def)
qed

text \<open>
  Claim C2, as amended. \<^verbatim>\<open>getManager\<close> has one guard, the check that \<^verbatim>\<open>videoUrl\<close> is
  present and not empty; the call of the \<^verbatim>\<open>URL\<close> constructor is not guarded. For every
  \<^verbatim>\<open>videoUrl\<close> the method returns exactly when \<^verbatim>\<open>videoUrl\<close> is absent, is empty, does not
  contain \<^verbatim>\<open>http\<close>, or is accepted by the constructor; it throws the constructor's
  \<^verbatim>\<open>TypeError\<close> exactly when \<^verbatim>\<open>videoUrl\<close> contains \<^verbatim>\<open>http\<close> and the constructor rejects it.
  With the URL Standard's parser that is the case, among others, for every \<^verbatim>\<open>videoUrl\<close>
  that contains \<^verbatim>\<open>http\<close> and no colon.
\<close>

theorem getManager_throws_iff:
  "((\<exists>m. getManager env props = Inr m) \<longleftrightarrow>
      videoUrl props = None \<or> videoUrl props = Some [] \<or>
      (\<exists>url. videoUrl props = Some url \<and> (\<not> sublist ''http'' url \<or> new_URL env url \<noteq> None))) \<and>
   (getManager env props = Inl TypeError \<longleftrightarrow>
      (\<exists>url. videoUrl props = Some url \<and> sublist ''http'' url \<and> new_URL env url = None)) \<and>
   (\<forall>url platform_host_ok.
      videoUrl props = Some url \<and> sublist ''http'' url \<and> CHR '':'' \<notin> set url \<and>
      new_URL env = URL_constructor platform_host_ok
      \<longrightarrow> getManager env props = Inl TypeError)"
proof -
  have nonempty: "\<And>url. sublist ''http'' url \<Longrightarrow> url \<noteq> []"
    by auto
  have returns: "(\<exists>m. getManager env props = Inr m) \<longleftrightarrow>
      videoUrl props = None \<or> videoUrl props = Some [] \<or>
      (\<exists>url. videoUrl props = Some url \<and> (\<not> sublist ''http'' url \<or> new_URL env url \<noteq> None))"
    by (auto simp: getManager_def match_literal_sublist split: option.splits)
  have throws: "getManager env props = Inl TypeError \<longleftrightarrow>
      (\<exists>url. videoUrl props = Some url \<and> sublist ''http'' url \<and> new_URL env url = None)"
    using nonempty by (auto simp: getManager_def match_literal_sublist split: option.splits)
  have family: "\<forall>url platform_host_ok.
      videoUrl props = Some url \<and> sublist ''http'' url \<and> CHR '':'' \<notin> set url \<and>
      new_URL env = URL_constructor platform_host_ok
      \<longrightarrow> getManager env props = Inl TypeError"
    using throws URL_constructor_needs_colon by auto
  show ?thesis
    using returns throws family by blast
qed

text \<open>A sentence that mentions \<^verbatim>\<open>http\<close> makes the method throw; a URL makes it return.\<close>

theorem getManager_throws_iff_witness:
  "getManager (browser_env True 80 160) (sample_props (Some ''watch http stream'')) = Inl TypeError \<and>
   (\<exists>m. getManager (browser_env True 80 160) (sample_props (Some ''https://example.com/video.mp4'')) = Inr m)"
proof -
  let ?env = "browser_env True 80 160"
  have u: "\<And>x. videoUrl (sample_props (Some x)) = Some x"
    by (simp add: sample_props_def)
  have e: "new_URL ?env = URL_constructor no_IPv6_no_IDNA"
    by (simp add: browser_env_def)
  have a1: "sublist ''http'' ''watch http stream''" by code_simp
  have a2: "CHR '':'' \<notin> set ''watch http stream''" by simp
  have b: "URL_constructor no_IPv6_no_IDNA ''https://example.com/video.mp4'' \<noteq> None"
    by code_simp
  have "getManager ?env (sample_props (Some ''watch http stream'')) = Inl TypeError"
    using getManager_throws_iff [of ?env "sample_props (Some ''watch http stream'')"] u e a1 a2
    by blast
  moreover have "\<exists>m. getManager ?env (sample_props (Some ''https://example.com/video.mp4'')) = Inr m"
    using getManager_throws_iff [of ?env "sample_props (Some ''https://example.com/video.mp4'')"] u e b
    by simp
  ultimately show ?thesis by simp
qed

text \<open>
  The claim as it was stated says that the method never throws. A host and path without a
  scheme, with \<^verbatim>\<open>http\<close> in the file name, makes it throw.
\<close>

theorem getManager_total_counterexample:
  "sublist ''http'' ''www.example.com/http.flv'' \<and>
   getManager (browser_env True 80 160) (sample_props (Some ''www.example.com/http.flv''))
     = Inl TypeError"
  by code_simp

subsection \<open>\<^verbatim>\<open>getDimensions\<close>\<close>













subsection \<open>\<^verbatim>\<open>render\<close>\<close>

text \<open>
  Claim C9, as amended. For every props value, \<^verbatim>\<open>render\<close> returns \<^verbatim>\<open>null\<close> when
  \<^verbatim>\<open>isEnabled\<close> is false. When \<^verbatim>\<open>isEnabled\<close> is true and \<^verbatim>\<open>getManager\<close> returns, it renders
  a single \<^verbatim>\<open>div\<close> with id \<^verbatim>\<open>sharedVideo\<close> whose style is the result of \<^verbatim>\<open>getDimensions\<close>
  and whose child is the manager; the \<^verbatim>\<open>div\<close> carries the class \<^verbatim>\<open>disable-pointer\<close> exactly
  when the user is resizing the filmstrip or is not the owner of the shared video, and no
  class otherwise. When \<^verbatim>\<open>isEnabled\<close> is true and \<^verbatim>\<open>getManager\<close> throws, \<^verbatim>\<open>render\<close> throws
  the same error.
\<close>

theorem render_shape:
  "(\<not> isEnabled props \<longrightarrow> render env props = Inr None) \<and>
   (isEnabled props \<and> getManager env props = Inr m \<longrightarrow>
      (\<exists>d. render env props = Inr (Some d) \<and>
           element_id d = ''sharedVideo'' \<and>
           style d = getDimensions env props \<and>
           child d = m \<and>
           (className d = ''disable-pointer'' \<longleftrightarrow> isResizing props \<or> \<not> isOwner props) \<and>
           (className d = [] \<longleftrightarrow> \<not> isResizing props \<and> isOwner props))) \<and>
   (isEnabled props \<and> getManager env props = Inl err \<longrightarrow> render env props = Inl err)"
  by (simp add: render_def)

text \<open>
  A disabled panel, the owner's panel, another participant's panel, and a panel whose URL
  the constructor rejects.
\<close>

theorem render_shape_witness:
  "render (browser_env True 80 160) ((sample_props None)\<lparr>isEnabled := False\<rparr>) = Inr None \<and>
   render (browser_env True 80 160) (sample_props (Some ''dQw4w9WgXcQ''))
     = Inr (Some \<lparr>className = [], element_id = ''sharedVideo'',
                  style = \<lparr>width = ''1160px'', height = ''640px''\<rparr>,
                  child = Some (YoutubeVideoManager ''dQw4w9WgXcQ'')\<rparr>) \<and>
   render (browser_env True 80 160) ((sample_props (Some ''dQw4w9WgXcQ''))\<lparr>isOwner := False\<rparr>)
     = Inr (Some \<lparr>className = ''disable-pointer'', element_id = ''sharedVideo'',
                  style = \<lparr>width = ''1160px'', height = ''640px''\<rparr>,
                  child = Some (YoutubeVideoManager ''dQw4w9WgXcQ'')\<rparr>) \<and>
   render (browser_env True 80 160) (sample_props (Some ''http:'')) = Inl TypeError"
proof -
  let ?env = "browser_env True 80 160"
  let ?off = "(sample_props None)\<lparr>isEnabled := False\<rparr>"
  let ?own = "sample_props (Some ''dQw4w9WgXcQ'')"
  let ?other = "(sample_props (Some ''dQw4w9WgXcQ''))\<lparr>isOwner := False\<rparr>"
  let ?bad = "sample_props (Some ''http:'')"
  have flags: "\<not> isEnabled ?off" "isEnabled ?own" "isEnabled ?other" "isEnabled ?bad"
    "\<not> isResizing ?own" "isOwner ?own" "\<not> isOwner ?other"
    by (simp_all add: sample_props_def)
  have m1: "getManager ?env ?own = Inr (Some (YoutubeVideoManager ''dQw4w9WgXcQ''))"
    by code_simp
  have m2: "getManager ?env ?other = Inr (Some (YoutubeVideoManager ''dQw4w9WgXcQ''))"
    by code_simp
  have m3: "getManager ?env ?bad = Inl TypeError"
    by code_simp
  have d1: "getDimensions ?env ?own = \<lparr>width = ''1160px'', height = ''640px''\<rparr>"
    by code_simp
  have d2: "getDimensions ?env ?other = \<lparr>width = ''1160px'', height = ''640px''\<rparr>"
    by code_simp
  have r0: "render ?env ?off = Inr None"
    using render_shape [of ?off ?env] flags by simp
  have r3: "render ?env ?bad = Inl TypeError"
    using render_shape [of ?bad ?env _ TypeError] flags m3 by simp
  obtain d where d: "render ?env ?own = Inr (Some d)" "element_id d = ''sharedVideo''"
      "style d = getDimensions ?env ?own" "child d = Some (YoutubeVideoManager ''dQw4w9WgXcQ'')"
      "className d = []"
    using render_shape [of ?own ?env "Some (YoutubeVideoManager ''dQw4w9WgXcQ'')"] flags m1
    by auto
  have r1: "render ?env ?own = Inr (Some \<lparr>className = [], element_id = ''sharedVideo'',
                  style = \<lparr>width = ''1160px'', height = ''640px''\<rparr>,
                  child = Some (YoutubeVideoManager ''dQw4w9WgXcQ'')\<rparr>)"
    using d d1 by (cases d) simp
  obtain d' where d': "render ?env ?other = Inr (Some d')" "element_id d' = ''sharedVideo''"
      "style d' = getDimensions ?env ?other" "child d' = Some (YoutubeVideoManager ''dQw4w9WgXcQ'')"
      "className d' = ''disable-pointer''"
    using render_shape [of ?other ?env "Some (YoutubeVideoManager ''dQw4w9WgXcQ'')"] flags m2
    by auto
  have r2: "render ?env ?other = Inr (Some \<lparr>className = ''disable-pointer'', element_id = ''sharedVideo'',
                  style = \<lparr>width = ''1160px'', height = ''640px''\<rparr>,
                  child = Some (YoutubeVideoManager ''dQw4w9WgXcQ'')\<rparr>)"
    using d' d2 by (cases d') simp
  show ?thesis
    using r0 r1 r2 r3 by simp
qed

text \<open>
  The claim as it was stated promises the \<^verbatim>\<open>div\<close> for every props value with \<^verbatim>\<open>isEnabled\<close>
  true. With the video URL \<^verbatim>\<open>http://\<close>, which has no host, \<^verbatim>\<open>render\<close> throws.
\<close>

theorem render_enabled_counterexample:
  "isEnabled (sample_props (Some ''http://'')) \<and>
   render (browser_env True 80 160) (sample_props (Some ''http://'')) = Inl TypeError"
proof -
  have "render (browser_env True 80 160) (sample_props (Some ''http://'')) = Inl TypeError"
    by code_simp
  moreover have "isEnabled (sample_props (Some ''http://''))"
    by (simp add: sample_props_def)
  ultimately show ?thesis by simp
qed

section \<open>Properties of \<^verbatim>\<open>Toolbox\<close>\<close>

subsection \<open>The component renders nothing for a recorder or a SIP gateway\<close>

text \<open>
  Claim C8. In every state in which \<^verbatim>\<open>iAmRecorder\<close> or \<^verbatim>\<open>iAmSipGateway\<close> is set, the
  component returns \<^verbatim>\<open>null\<close>, whatever its props, the other selected values and the
  helpers are.
\<close>

theorem Toolbox_null_for_recorder_and_gateway:
  "iAmRecorder sel \<or> iAmSipGateway sel \<Longrightarrow> Toolbox env props sel = None"
  by (auto simp: Toolbox_def)

theorem Toolbox_null_for_recorder_and_gateway_witness:
  "iAmRecorder (sample_selected\<lparr>iAmRecorder := True\<rparr>) \<and>
   Toolbox sample_env sample_Toolbox_props (sample_selected\<lparr>iAmRecorder := True\<rparr>) = None \<and>
   iAmSipGateway (sample_selected\<lparr>iAmSipGateway := True\<rparr>) \<and>
   Toolbox sample_env sample_Toolbox_props (sample_selected\<lparr>iAmSipGateway := True\<rparr>) = None"
proof -
  have a: "iAmRecorder (sample_selected\<lparr>iAmRecorder := True\<rparr>)"
    and b: "iAmSipGateway (sample_selected\<lparr>iAmSipGateway := True\<rparr>)"
    by simp_all
  show ?thesis
    using Toolbox_null_for_recorder_and_gateway [of "sample_selected\<lparr>iAmRecorder := True\<rparr>"
        sample_env sample_Toolbox_props]
      Toolbox_null_for_recorder_and_gateway [of "sample_selected\<lparr>iAmSipGateway := True\<rparr>"
        sample_env sample_Toolbox_props] a b
    by simp
qed

subsection \<open>The content row\<close>


lemma Toolbox_renders:
  assumes "\<not> iAmRecorder sel" and "\<not> iAmSipGateway sel"
  shows "\<exists>root. Toolbox env props sel = Some root \<and>
           contentItems root
             = map renderButton (fst (visibleButtons env props sel) @ snd (visibleButtons env props sel)) \<and>
           hangupItem root = renderHangup env props sel"
  using assms by (simp add: Toolbox_def Let_def split: prod.splits)




subsection \<open>The hangup control\<close>

text \<open>
  Claim C5, as amended. In every state in which neither \<^verbatim>\<open>iAmRecorder\<close> nor
  \<^verbatim>\<open>iAmSipGateway\<close> is set, the component renders a hangup control exactly when
  \<^verbatim>\<open>isButtonEnabled('hangup', ...)\<close> holds for the toolbar button list in use. When it
  renders one, it is the \<^verbatim>\<open>HangupMenuButton\<close>, holding a context menu with the
  end-conference and the leave-conference entries, exactly when the conference exists and
  supports ending the conference and the local participant is a moderator; otherwise it
  is the plain \<^verbatim>\<open>HangupButton\<close>.
\<close>

theorem Toolbox_hangup_control:
  assumes "\<not> iAmRecorder sel" and "\<not> iAmSipGateway sel"
  shows "(renderedHangup (Toolbox env props sel) \<noteq> []
            \<longleftrightarrow> isButtonEnabled env ''hangup'' (toolbarButtonsToUse props sel)) \<and>
         (isButtonEnabled env ''hangup'' (toolbarButtonsToUse props sel) \<longrightarrow>
            ((\<exists>c. conference sel = Some c \<and> isEndConferenceSupported c) \<and> isModerator sel \<longrightarrow>
               renderedHangup (Toolbox env props sel)
                 = [HangupMenuButton ''hangup-menu'' (hangupMenuVisible sel) ''hangup-menu''
                      (buttonsWithNotifyClick sel ''hangup-menu'')
                      [ContextMenu (translation env ''toolbar.accessibilityLabel.moreActionsMenu'')
                         (classes_hangupMenu env) False (overflowDrawer sel)
                         [EndConferenceButton ''end-meeting''
                            (buttonsWithNotifyClick sel ''end-meeting''),
                          LeaveConferenceButton ''hangup''
                            (buttonsWithNotifyClick sel ''hangup'')]]]) \<and>
            (\<not> ((\<exists>c. conference sel = Some c \<and> isEndConferenceSupported c) \<and> isModerator sel) \<longrightarrow>
               renderedHangup (Toolbox env props sel)
                 = [HangupButton ''hangup'' ''hangup-button'' ''hangup-button''
                      (buttonsWithNotifyClick sel ''hangup'') True]))"
proof -
  have e: "endConferenceSupported sel
             \<longleftrightarrow> (\<exists>c. conference sel = Some c \<and> isEndConferenceSupported c) \<and> isModerator sel"
    by (cases "conference sel") (simp_all add: endConferenceSupported_def)
  obtain root where "Toolbox env props sel = Some root"
    "hangupItem root = renderHangup env props sel"
    using Toolbox_renders [OF assms, of env props] by blast
  then have h: "renderedHangup (Toolbox env props sel) = rendered [renderHangup env props sel]"
    by (simp add: renderedHangup_def)
  show ?thesis
    unfolding h e [symmetric]
    by (simp add: renderHangup_def)
qed

text \<open>A moderator, a participant who is not a moderator, and a toolbar without hangup.\<close>

theorem Toolbox_hangup_control_witness:
  "\<not> iAmRecorder sample_selected \<and> \<not> iAmSipGateway sample_selected \<and>
   isButtonEnabled sample_env ''hangup'' (toolbarButtonsToUse sample_Toolbox_props sample_selected) \<and>
   renderedHangup (Toolbox sample_env sample_Toolbox_props sample_selected)
     = [HangupMenuButton ''hangup-menu'' False ''hangup-menu'' None
          [ContextMenu ''toolbar.accessibilityLabel.moreActionsMenu'' ''hangupMenu'' False False
             [EndConferenceButton ''end-meeting'' None, LeaveConferenceButton ''hangup'' None]]] \<and>
   renderedHangup (Toolbox sample_env sample_Toolbox_props (sample_selected\<lparr>isModerator := False\<rparr>))
     = [HangupButton ''hangup'' ''hangup-button'' ''hangup-button'' None True] \<and>
   renderedHangup (Toolbox sample_env (sample_Toolbox_props\<lparr>toolbarButtons := Some [''chat'']\<rparr>)
       sample_selected) = []"
proof -
  let ?guest = "sample_selected\<lparr>isModerator := False\<rparr>"
  let ?nohangup = "sample_Toolbox_props\<lparr>toolbarButtons := Some [''chat'']\<rparr>"
  have r: "\<not> iAmRecorder sample_selected" and g: "\<not> iAmSipGateway sample_selected"
    and r': "\<not> iAmRecorder ?guest" and g': "\<not> iAmSipGateway ?guest"
    by (simp_all add: sample_selected_def)
  have en: "isButtonEnabled sample_env ''hangup'' (toolbarButtonsToUse sample_Toolbox_props sample_selected)"
    "isButtonEnabled sample_env ''hangup'' (toolbarButtonsToUse sample_Toolbox_props ?guest)"
    "\<not> isButtonEnabled sample_env ''hangup'' (toolbarButtonsToUse ?nohangup sample_selected)"
    by (simp_all add: sample_env_def sample_isButtonEnabled_def toolbarButtonsToUse_def
        sample_Toolbox_props_def sample_selected_def)
  have vals: "conference sample_selected = Some \<lparr>isEndConferenceSupported = True\<rparr>"
    "isModerator sample_selected" "\<not> isModerator ?guest"
    "hangupMenuVisible sample_selected = False" "overflowDrawer sample_selected = False"
    "buttonsWithNotifyClick sample_selected = Map.empty"
    "buttonsWithNotifyClick ?guest = Map.empty"
    "translation sample_env = (\<lambda>k. k)" "classes_hangupMenu sample_env = ''hangupMenu''"
    by (simp_all add: sample_selected_def sample_env_def)
  have a: "renderedHangup (Toolbox sample_env sample_Toolbox_props sample_selected)
     = [HangupMenuButton ''hangup-menu'' False ''hangup-menu'' None
          [ContextMenu ''toolbar.accessibilityLabel.moreActionsMenu'' ''hangupMenu'' False False
             [EndConferenceButton ''end-meeting'' None, LeaveConferenceButton ''hangup'' None]]]"
    using Toolbox_hangup_control [OF r g, of sample_env sample_Toolbox_props] en(1)
    by (simp add: vals)
  have b: "renderedHangup (Toolbox sample_env sample_Toolbox_props ?guest)
     = [HangupButton ''hangup'' ''hangup-button'' ''hangup-button'' None True]"
    using Toolbox_hangup_control [OF r' g', of sample_env sample_Toolbox_props] en(2)
    by (simp add: vals)
  have c: "renderedHangup (Toolbox sample_env ?nohangup sample_selected) = []"
    using Toolbox_hangup_control [OF r g, of sample_env ?nohangup] en(3)
    by simp
  show ?thesis
    using a b c r g en(1) by simp
qed

text \<open>
  The claim as it was stated speaks of every state. For a SIP gateway the hangup button
  is enabled in the toolbar button list and no hangup control is rendered.
\<close>

theorem Toolbox_hangup_control_counterexample:
  "isButtonEnabled sample_env ''hangup''
     (toolbarButtonsToUse sample_Toolbox_props (sample_selected\<lparr>iAmSipGateway := True\<rparr>)) \<and>
   renderedHangup (Toolbox sample_env sample_Toolbox_props (sample_selected\<lparr>iAmSipGateway := True\<rparr>))
     = []"
  by (simp add: sample_env_def sample_isButtonEnabled_def toolbarButtonsToUse_def
      sample_Toolbox_props_def sample_selected_def Toolbox_def renderedHangup_def)

subsection \<open>The menu effects\<close>

text \<open>
  The actions of the \<open>k\<close>-th commit of a run are those of one commit from the memory the
  earlier commits left, and that memory holds the dependencies of the commit before.
\<close>

lemma commits_length: "length (commits m sels) = length sels"
  by (induction sels arbitrary: m) simp_all
















subsection \<open>The key handler\<close>

text \<open>
  Claim C7. For every keyboard event (or none) and every menu-visibility state,
  \<^verbatim>\<open>onEscKey\<close> dispatches \<^verbatim>\<open>setHangupMenuVisible(false)\<close> if and only if the key is
  \<^verbatim>\<open>Escape\<close> and the hangup menu is visible, dispatches \<^verbatim>\<open>setOverflowMenuVisible(false)\<close> if
  and only if the key is \<^verbatim>\<open>Escape\<close> and the overflow menu is visible, dispatches nothing
  at all for any other key, and never dispatches any other action.
\<close>

theorem onEscKey_dispatches:
  "(setHangupMenuVisible False \<in> set (fst (onEscKey sel e))
      \<longleftrightarrow> (\<exists>ev. e = Some ev \<and> KeyboardEvent.key ev = ''Escape'') \<and> hangupMenuVisible sel) \<and>
   (setOverflowMenuVisible False \<in> set (fst (onEscKey sel e))
      \<longleftrightarrow> (\<exists>ev. e = Some ev \<and> KeyboardEvent.key ev = ''Escape'') \<and> overflowMenuVisible sel) \<and>
   (\<not> (\<exists>ev. e = Some ev \<and> KeyboardEvent.key ev = ''Escape'') \<longrightarrow> fst (onEscKey sel e) = []) \<and>
   set (fst (onEscKey sel e)) \<subseteq> {setHangupMenuVisible False, setOverflowMenuVisible False}"
  by (cases e) (auto simp: onEscKey_def)

theorem onEscKey_dispatches_witness:
  "fst (onEscKey (sample_selected\<lparr>hangupMenuVisible := True\<rparr>)
          (Some \<lparr>KeyboardEvent.key = ''Enter''\<rparr>)) = [] \<and>
   setHangupMenuVisible False
     \<in> set (fst (onEscKey (sample_selected\<lparr>hangupMenuVisible := True\<rparr>)
                   (Some \<lparr>KeyboardEvent.key = ''Escape''\<rparr>))) \<and>
   setOverflowMenuVisible False
     \<notin> set (fst (onEscKey (sample_selected\<lparr>hangupMenuVisible := True\<rparr>)
                   (Some \<lparr>KeyboardEvent.key = ''Escape''\<rparr>)))"
proof -
  let ?sel = "sample_selected\<lparr>hangupMenuVisible := True\<rparr>"
  let ?enter = "Some \<lparr>KeyboardEvent.key = ''Enter''\<rparr>"
  let ?escape = "Some \<lparr>KeyboardEvent.key = ''Escape''\<rparr>"
  have n: "\<not> (\<exists>ev. ?enter = Some ev \<and> KeyboardEvent.key ev = ''Escape'')"
    by simp
  have y: "\<exists>ev. ?escape = Some ev \<and> KeyboardEvent.key ev = ''Escape''"
    by simp
  have v: "hangupMenuVisible ?sel" "\<not> overflowMenuVisible ?sel"
    by (simp_all add: sample_selected_def)
  have a: "fst (onEscKey ?sel ?enter) = []"
    using onEscKey_dispatches [of ?sel ?enter] n by blast
  have b: "setHangupMenuVisible False \<in> set (fst (onEscKey ?sel ?escape))"
    using onEscKey_dispatches [of ?sel ?escape] y v by blast
  have c: "setOverflowMenuVisible False \<notin> set (fst (onEscKey ?sel ?escape))"
    using onEscKey_dispatches [of ?sel ?escape] v by blast
  show ?thesis using a b c by simp
qed

subsection \<open>The mouse-out handler\<close>

text \<open>
  Claim C10. In every state \<^verbatim>\<open>onMouseOut\<close> dispatches \<^verbatim>\<open>setToolbarHovered(false)\<close> exactly
  when the overflow menu is not visible, and never anything else. When the overflow menu
  is visible it dispatches no action, so whatever reducer the store applies to the
  dispatched actions leaves every state unchanged.
\<close>

theorem onMouseOut_frame:
  "(setToolbarHovered False \<in> set (onMouseOut sel) \<longleftrightarrow> \<not> overflowMenuVisible sel) \<and>
   set (onMouseOut sel) \<subseteq> {setToolbarHovered False} \<and>
   (overflowMenuVisible sel \<longrightarrow>
      onMouseOut sel = [] \<and> (\<forall>reducer state. foldl reducer state (onMouseOut sel) = state))"
  by (auto simp: onMouseOut_def)

theorem onMouseOut_frame_witness:
  "overflowMenuVisible (sample_selected\<lparr>overflowMenuVisible := True\<rparr>) \<and>
   onMouseOut (sample_selected\<lparr>overflowMenuVisible := True\<rparr>) = [] \<and>
   \<not> overflowMenuVisible sample_selected \<and>
   setToolbarHovered False \<in> set (onMouseOut sample_selected)"
proof -
  have a: "overflowMenuVisible (sample_selected\<lparr>overflowMenuVisible := True\<rparr>)"
    by simp
  have b: "\<not> overflowMenuVisible sample_selected"
    by (simp add: sample_selected_def)
  show ?thesis
    using onMouseOut_frame [of "sample_selected\<lparr>overflowMenuVisible := True\<rparr>"]
      onMouseOut_frame [of sample_selected] a b
    by blast
qed

end
